theory Spec2Isabelle
  imports Complex_Main
begin

section \<open>Credit deduction in the budget and shopping modules\<close>

text \<open>
  Both modules define \<^verbatim>\<open>deduct_ficore_credits\<close>
  (\<^verbatim>\<open>budget/budget.py\<close>, lines 56-164 and \<^verbatim>\<open>shopping/shopping.py\<close>, lines 49-217).
  The routine reads a user document, checks the balance, and then writes three things
  through a MongoDB session: the decremented balance, a ledger document in
  \<^verbatim>\<open>ficore_credit_transactions\<close> and an audit document in \<^verbatim>\<open>audit_logs\<close>.

  The store is a collaborator of the routine. It is embedded as an explicit state
  (\<open>db\<close>) together with an environment (\<open>env\<close>) that decides which storage call
  raises which exception and what other requests commit between the balance check and
  the transaction. Numbers are exact rationals: every finite Python \<^verbatim>\<open>int\<close> and
  \<^verbatim>\<open>float\<close> is one, and rounding of \<^verbatim>\<open>float\<close> arithmetic is not modelled.
  \<^verbatim>\<open>ObjectId()\<close> and \<^verbatim>\<open>datetime.utcnow()\<close> do not influence any branch or any other
  stored field and are left out of the documents. Of the logger calls only one effect
  is kept: building a message that contains \<^verbatim>\<open>{amount}\<close> can raise (see \<open>fmt_amount\<close>).
\<close>

subsection \<open>Values, documents and collections\<close>

text \<open>The \<^verbatim>\<open>amount\<close> argument as the callers can pass it: an int, a finite float, or a
  value that is not a number at all (\<^verbatim>\<open>None\<close>).\<close>

datatype pyval = PyInt int | PyFloat rat | PyNone

text \<open>The exceptions that reach the handlers of the routine. \<^verbatim>\<open>OperationFailure\<close>
  carries \<^verbatim>\<open>e.details\<close>: \<open>None\<close> when the attribute is \<^verbatim>\<open>None\<close>, otherwise the
  \<^verbatim>\<open>errorLabels\<close> list (empty when the key is missing). \<^verbatim>\<open>OperationFailure\<close> and
  \<^verbatim>\<open>InvalidOperation\<close> are subclasses of \<^verbatim>\<open>PyMongoError\<close>; all of them are subclasses
  of \<^verbatim>\<open>Exception\<close>.\<close>

datatype exn =
    OperationFailure "string list option"
  | InvalidOperation
  | PyMongoError
  | ValueError
  | TypeError
  | AttributeError
  | OtherException

text \<open>A stored \<^verbatim>\<open>ficore_credit_balance\<close>: the field can be missing from the document,
  hold \<^verbatim>\<open>null\<close>, or hold a number.\<close>

datatype field = Absent | Null | Num rat

record user_doc =
  ficore_credit_balance :: field

datatype status = completed | failed

record ledger_entry =
  l_user_id :: string
  l_action :: string
  l_amount :: rat
  l_ref_id :: "string option"
  l_session_id :: string
  l_status :: status

record audit_entry =
  a_admin_id :: string
  a_action :: string
  a_user_id :: string
  a_amount :: rat
  a_ref_id :: "string option"
  previous_balance :: rat
  new_balance :: rat

record db =
  users :: "string \<rightharpoonup> user_doc"
  ficore_credit_transactions :: "ledger_entry list"
  audit_logs :: "audit_entry list"

subsection \<open>The environment of a call\<close>

text \<open>The calls of the routine to its collaborators, in the order in which one attempt
  issues them: the lookup \<^verbatim>\<open>session.get('sid', ...)\<close> in the web framework's session,
  then the storage calls.\<close>

datatype storage_op =
    SessionGet | FindOne | StartSession | StartTransaction | UpdateOne | InsertLedger
  | InsertAudit | CommitTransaction

text \<open>\<open>faults env i p\<close> is the exception that the call \<open>p\<close> raises in attempt \<open>i\<close>
  (\<open>None\<close>: the call goes through). \<open>concurrent env\<close> is what other requests have
  committed between the balance check and the first write of this call; the identity
  is sequential execution.\<close>

record env =
  faults :: "nat \<Rightarrow> storage_op \<Rightarrow> exn option"
  concurrent :: "db \<Rightarrow> db"

text \<open>What a call gives back: the returned boolean, the store afterwards (for a
  caller-supplied session: the view of that session), and the number of attempts of
  the transactional part that were begun.\<close>

record outcome =
  ok :: bool
  store :: db
  tries :: nat

subsection \<open>Python builtins\<close>

text \<open>\<^verbatim>\<open>int(amount)\<close>: truncation towards zero on a float, \<^verbatim>\<open>TypeError\<close> on \<^verbatim>\<open>None\<close>.\<close>

fun py_int :: "pyval \<Rightarrow> int option" where
  "py_int (PyInt n) = Some n"
| "py_int (PyFloat q) = Some (if 0 \<le> q then \<lfloor>q\<rfloor> else \<lceil>q\<rceil>)"
| "py_int PyNone = None"

text \<open>The numeric value of \<^verbatim>\<open>amount\<close> in a comparison or in arithmetic; \<open>None\<close> where
  Python raises \<^verbatim>\<open>TypeError\<close>.\<close>

fun py_num :: "pyval \<Rightarrow> rat option" where
  "py_num (PyInt n) = Some (of_int n)"
| "py_num (PyFloat q) = Some q"
| "py_num PyNone = None"

text \<open>\<^verbatim>\<open>float(user.get('ficore_credit_balance', 0))\<close>: the default for a missing field,
  \<^verbatim>\<open>TypeError\<close> on \<^verbatim>\<open>null\<close>.\<close>

fun get_balance :: "user_doc \<Rightarrow> rat option" where
  "get_balance user =
     (case ficore_credit_balance user of Absent \<Rightarrow> Some 0 | Null \<Rightarrow> None | Num b \<Rightarrow> Some b)"

text \<open>\<^verbatim>\<open>str(budget_id) if budget_id else None\<close>: an empty reference is falsy.\<close>

fun ref_str :: "string option \<Rightarrow> string option" where
  "ref_str None = None"
| "ref_str (Some s) = (if s = [] then None else Some s)"

subsection \<open>Storage writes\<close>

text \<open>\<^verbatim>\<open>modified_count\<close> of an \<^verbatim>\<open>update_one\<close>: 1 when the matched document changed.\<close>

definition modified_count :: "user_doc \<Rightarrow> user_doc \<Rightarrow> nat" where
  "modified_count old new = (if new = old then 0 else 1)"

text \<open>\<^verbatim>\<open>update_one({'_id': user_id}, {'$inc': {'ficore_credit_balance': -amount}})\<close>
  (budget, lines 104-108). \<^verbatim>\<open>$inc\<close> creates a missing field with the increment and is
  a write error on \<^verbatim>\<open>null\<close>.\<close>

definition update_one_inc :: "db \<Rightarrow> string \<Rightarrow> rat \<Rightarrow> exn + nat \<times> db" where
  "update_one_inc d user_id amount =
     (case users d user_id of
        None \<Rightarrow> Inr (0, d)
      | Some user \<Rightarrow>
          (case ficore_credit_balance user of
             Null \<Rightarrow> Inl (OperationFailure (Some []))
           | Absent \<Rightarrow>
               (let new = user\<lparr>ficore_credit_balance := Num (- amount)\<rparr>
                in Inr (modified_count user new, d\<lparr>users := (users d)(user_id \<mapsto> new)\<rparr>))
           | Num b \<Rightarrow>
               (let new = user\<lparr>ficore_credit_balance := Num (b + - amount)\<rparr>
                in Inr (modified_count user new, d\<lparr>users := (users d)(user_id \<mapsto> new)\<rparr>))))"

text \<open>\<^verbatim>\<open>update_one({'_id': user_id}, [{'$set': {'ficore_credit_balance':
  {'$toDouble': {'$subtract': ['$ficore_credit_balance', amount]}}}}])\<close>
  (shopping, lines 104-108). \<^verbatim>\<open>$subtract\<close> of a missing or \<^verbatim>\<open>null\<close> operand is
  \<^verbatim>\<open>null\<close>, and so is \<^verbatim>\<open>$toDouble\<close> of \<^verbatim>\<open>null\<close>.\<close>

definition update_one_set :: "db \<Rightarrow> string \<Rightarrow> rat \<Rightarrow> exn + nat \<times> db" where
  "update_one_set d user_id amount =
     (case users d user_id of
        None \<Rightarrow> Inr (0, d)
      | Some user \<Rightarrow>
          (let new = user\<lparr>ficore_credit_balance :=
                 (case ficore_credit_balance user of
                    Absent \<Rightarrow> Null | Null \<Rightarrow> Null | Num b \<Rightarrow> Num (b - amount))\<rparr>
           in Inr (modified_count user new, d\<lparr>users := (users d)(user_id \<mapsto> new)\<rparr>)))"

text \<open>\<^verbatim>\<open>insert_one\<close> appends to the collection.\<close>

definition insert_ledger :: "ledger_entry \<Rightarrow> db \<Rightarrow> db" where
  "insert_ledger e d = d\<lparr>ficore_credit_transactions := ficore_credit_transactions d @ [e]\<rparr>"

definition insert_audit :: "audit_entry \<Rightarrow> db \<Rightarrow> db" where
  "insert_audit e d = d\<lparr>audit_logs := audit_logs d @ [e]\<rparr>"

text \<open>The ledger document of lines 115-124 and 129-138, and the audit document of lines
  142-153 (the same in both modules, up to the name of the reference field). Python
  computes \<^verbatim>\<open>previous_balance\<close> and \<^verbatim>\<open>new_balance\<close> in \<^verbatim>\<open>float\<close>, from
  \<^verbatim>\<open>float(balance)\<close>; here they are exact, which is the same value as long as the
  balance and the amount are integers below \<open>2\<^sup>5\<^sup>3\<close> in magnitude, as in every
  concrete store of this theory.\<close>

definition transaction_doc ::
  "string \<Rightarrow> rat \<Rightarrow> string \<Rightarrow> string option \<Rightarrow> string \<Rightarrow> status \<Rightarrow> ledger_entry" where
  "transaction_doc user_id amount action ref_id session_id st =
     \<lparr>l_user_id = user_id, l_action = action, l_amount = - amount,
      l_ref_id = ref_str ref_id, l_session_id = session_id, l_status = st\<rparr>"

definition audit_doc ::
  "string \<Rightarrow> rat \<Rightarrow> string \<Rightarrow> string option \<Rightarrow> rat \<Rightarrow> audit_entry" where
  "audit_doc user_id amount action ref_id current_balance =
     \<lparr>a_admin_id = ''system'', a_action = ''deduct_ficore_credits_'' @ action,
      a_user_id = user_id, a_amount = amount, a_ref_id = ref_str ref_id,
      previous_balance = current_balance, new_balance = current_balance - amount\<rparr>"

subsection \<open>The transactional part\<close>

text \<open>The body of the \<^verbatim>\<open>with ... start_transaction()\<close> block: budget lines 103-155,
  shopping lines 103-160. It runs on the working copy \<open>tx\<close> of the session and gives
  back the exception that left the block (\<open>None\<close>: the block ran to its end) with the
  working copy at that point. \<open>commits\<close> says whether the block calls
  \<^verbatim>\<open>commit_transaction()\<close> itself: always in the budget module, only
  \<^verbatim>\<open>if owns_session\<close> in the shopping module.\<close>

definition transaction_body ::
  "(db \<Rightarrow> string \<Rightarrow> rat \<Rightarrow> exn + nat \<times> db) \<Rightarrow> env \<Rightarrow> nat \<Rightarrow> bool \<Rightarrow>
   string \<Rightarrow> rat \<Rightarrow> string \<Rightarrow> string option \<Rightarrow> string \<Rightarrow> rat \<Rightarrow> db \<Rightarrow> exn option \<times> db" where
  "transaction_body update_one e i commits user_id amount action ref_id session_id
     current_balance tx =
     (case faults e i UpdateOne of
        Some x \<Rightarrow> (Some x, tx)
      | None \<Rightarrow>
          (case update_one tx user_id amount of
             Inl x \<Rightarrow> (Some x, tx)
           | Inr (result, tx1) \<Rightarrow>
               if result = 0 then
                 (case faults e i InsertLedger of
                    Some x \<Rightarrow> (Some x, tx1)
                  | None \<Rightarrow>
                      (Some ValueError,
                       insert_ledger
                         (transaction_doc user_id amount action ref_id session_id failed) tx1))
               else
                 (case faults e i InsertLedger of
                    Some x \<Rightarrow> (Some x, tx1)
                  | None \<Rightarrow>
                      (let tx2 = insert_ledger
                             (transaction_doc user_id amount action ref_id session_id completed)
                             tx1
                       in case faults e i InsertAudit of
                            Some x \<Rightarrow> (Some x, tx2)
                          | None \<Rightarrow>
                              (let tx3 = insert_audit
                                     (audit_doc user_id amount action ref_id current_balance) tx2
                               in if commits then
                                    (case faults e i CommitTransaction of
                                       Some x \<Rightarrow> (Some x, tx3)
                                     | None \<Rightarrow> (None, tx3))
                                  else (None, tx3))))))"

text \<open>A block run inside a transaction of its own: leaving it by an exception aborts the
  transaction, and the store keeps none of the writes of the block.\<close>

definition in_own_transaction :: "env \<Rightarrow> nat \<Rightarrow> (db \<Rightarrow> exn option \<times> db) \<Rightarrow> db \<Rightarrow> exn option \<times> db" where
  "in_own_transaction e i body d =
     (case faults e i StartTransaction of
        Some x \<Rightarrow> (Some x, d)
      | None \<Rightarrow>
          (case body d of
             (None, tx) \<Rightarrow> (None, tx)
           | (Some x, tx) \<Rightarrow> (Some x, d)))"

subsection \<open>The budget module\<close>

text \<open>The \<^verbatim>\<open>try\<close> block of lines 72-159: the value returned (\<open>Inr\<close>) or the exception
  raised (\<open>Inl\<close>), the store, and the attempts begun.\<close>

definition budget_try ::
  "env \<Rightarrow> db \<Rightarrow> string \<Rightarrow> pyval \<Rightarrow> string \<Rightarrow> string option \<Rightarrow> string \<Rightarrow>
   (exn + bool) \<times> db \<times> nat" where
  "budget_try e d user_id amount action budget_id session_id =
     (if user_id = [] then (Inr False, d, 0)
      else
        (case py_num amount of
           None \<Rightarrow> (Inl TypeError, d, 0)
         | Some a \<Rightarrow>
             (if a \<le> 0 then (Inr False, d, 0)
              else
                (case faults e 0 FindOne of
                   Some x \<Rightarrow> (Inl x, d, 0)
                 | None \<Rightarrow>
                     (case users d user_id of
                        None \<Rightarrow> (Inr False, d, 0)
                      | Some user \<Rightarrow>
                          (case get_balance user of
                             None \<Rightarrow> (Inl TypeError, d, 0)
                           | Some current_balance \<Rightarrow>
                               (if current_balance < a then (Inr False, d, 0)
                                else
                                  (case faults e 0 StartSession of
                                     Some x \<Rightarrow> (Inl x, concurrent e d, 0)
                                   | None \<Rightarrow>
                                       (case in_own_transaction e 0
                                               (transaction_body update_one_inc e 0 True user_id a
                                                  action budget_id session_id current_balance)
                                               (concurrent e d) of
                                          (None, d1) \<Rightarrow> (Inr True, d1, 1)
                                        | (Some x, d1) \<Rightarrow> (Inl x, d1, 1))))))))))"

text \<open>\<^verbatim>\<open>deduct_ficore_credits\<close> of the budget module, for a call whose log messages can
  be built: the \<^verbatim>\<open>try\<close> block under its \<^verbatim>\<open>except Exception\<close> (lines 161-164). \<open>Inl\<close>
  would be an exception that reaches the caller; what can raise to the caller is added
  in \<open>budget_call\<close> below.\<close>

definition budget_deduct_ficore_credits ::
  "env \<Rightarrow> db \<Rightarrow> string \<Rightarrow> pyval \<Rightarrow> string \<Rightarrow> string option \<Rightarrow> string \<Rightarrow> exn + outcome" where
  "budget_deduct_ficore_credits e d user_id amount action budget_id session_id =
     (case budget_try e d user_id amount action budget_id session_id of
        (Inr b, d', n) \<Rightarrow> Inr \<lparr>ok = b, store = d', tries = n\<rparr>
      | (Inl x, d', n) \<Rightarrow> Inr \<lparr>ok = False, store = d', tries = n\<rparr>)"

subsection \<open>The shopping module\<close>

definition max_retries :: nat where
  "max_retries = 3"

text \<open>What the \<^verbatim>\<open>except\<close> clauses of lines 162-201 do with an exception of attempt
  \<open>attempt\<close>: \<^verbatim>\<open>continue\<close>, \<^verbatim>\<open>return False\<close>, or raise another exception out of the handler
  (\<^verbatim>\<open>error_details.get\<close> on \<^verbatim>\<open>None\<close> is an \<^verbatim>\<open>AttributeError\<close>). The three clauses
  differ in their log message only; \<^verbatim>\<open>abort_transaction()\<close> in them acts on a
  transaction that the \<^verbatim>\<open>with\<close> block has already aborted.\<close>

datatype handled = Continue | ReturnFalse | Reraise exn

definition shopping_except :: "nat \<Rightarrow> exn \<Rightarrow> handled" where
  "shopping_except attempt x =
     (case x of
        OperationFailure details \<Rightarrow>
          (case details of
             None \<Rightarrow> Reraise AttributeError
           | Some error_labels \<Rightarrow>
               if ''TransientTransactionError'' \<in> set error_labels \<and> attempt < max_retries - 1
               then Continue else ReturnFalse)
      | _ \<Rightarrow> ReturnFalse)"

text \<open>The \<^verbatim>\<open>with session_to_use.start_transaction() if not mongo_session else
  nullcontext()\<close> block of one attempt (line 102): with a session of its own the block
  is a transaction; with the caller's session the writes stay on that session whatever
  happens. \<open>ended\<close> says whether \<^verbatim>\<open>end_session()\<close> has been called on the session:
  \<^verbatim>\<open>start_transaction()\<close> on an ended session raises \<^verbatim>\<open>InvalidOperation\<close>
  (\<^verbatim>\<open>Cannot use ended session\<close>).\<close>

definition shopping_attempt ::
  "env \<Rightarrow> nat \<Rightarrow> bool \<Rightarrow> bool \<Rightarrow> string \<Rightarrow> rat \<Rightarrow> string \<Rightarrow> string option \<Rightarrow> string \<Rightarrow> rat \<Rightarrow>
   db \<Rightarrow> exn option \<times> db" where
  "shopping_attempt e attempt owns_session ended user_id amount action item_id session_id
     current_balance d =
     (if owns_session then
        (if ended then (Some InvalidOperation, d)
         else
           in_own_transaction e attempt
             (transaction_body update_one_set e attempt True user_id amount action item_id
                session_id current_balance) d)
      else
        transaction_body update_one_set e attempt False user_id amount action item_id
          session_id current_balance d)"

text \<open>\<^verbatim>\<open>for attempt in range(max_retries)\<close> (lines 100-212), as recursion over the list of
  attempt numbers still to run. The \<^verbatim>\<open>finally\<close> clause of lines 203-208 runs at the end
  of every round, also on \<^verbatim>\<open>continue\<close>, and ends a session that the routine owns: the
  next round meets that session ended.\<close>

fun shopping_for ::
  "env \<Rightarrow> bool \<Rightarrow> bool \<Rightarrow> string \<Rightarrow> rat \<Rightarrow> string \<Rightarrow> string option \<Rightarrow> string \<Rightarrow> rat \<Rightarrow>
   nat list \<Rightarrow> db \<Rightarrow> (exn + bool) \<times> db \<times> nat" where
  "shopping_for e owns_session ended user_id amount action item_id session_id
     current_balance [] d = (Inr False, d, 0)"
| "shopping_for e owns_session ended user_id amount action item_id session_id
     current_balance (attempt # rest) d =
     (case shopping_attempt e attempt owns_session ended user_id amount action item_id
             session_id current_balance d of
        (None, d1) \<Rightarrow> (Inr True, d1, 1)
      | (Some x, d1) \<Rightarrow>
          (case shopping_except attempt x of
             Continue \<Rightarrow>
               (case shopping_for e owns_session (ended \<or> owns_session) user_id amount action
                       item_id session_id current_balance rest d1 of
                  (r, d2, n) \<Rightarrow> (r, d2, Suc n))
           | ReturnFalse \<Rightarrow> (Inr False, d1, 1)
           | Reraise y \<Rightarrow> (Inl y, d1, 1)))"

text \<open>The outer \<^verbatim>\<open>try\<close> block of lines 66-212. \<open>mongo_session\<close> says whether the caller
  supplied a session.\<close>

definition shopping_try ::
  "env \<Rightarrow> db \<Rightarrow> string \<Rightarrow> pyval \<Rightarrow> string \<Rightarrow> string option \<Rightarrow> bool \<Rightarrow> string \<Rightarrow>
   (exn + bool) \<times> db \<times> nat" where
  "shopping_try e d user_id amount action item_id mongo_session session_id =
     (case py_int amount of
        None \<Rightarrow> (Inl TypeError, d, 0)
      | Some n \<Rightarrow>
          (if n \<noteq> 1 \<and> n \<noteq> 2 then (Inr False, d, 0)
           else if user_id = [] then (Inr False, d, 0)
           else
             (case faults e 0 FindOne of
                Some x \<Rightarrow> (Inl x, d, 0)
              | None \<Rightarrow>
                  (case users d user_id of
                     None \<Rightarrow> (Inr False, d, 0)
                   | Some user \<Rightarrow>
                       (case get_balance user of
                          None \<Rightarrow> (Inl TypeError, d, 0)
                        | Some current_balance \<Rightarrow>
                            (if current_balance < of_int n then (Inr False, d, 0)
                             else
                               (case (if mongo_session then None else faults e 0 StartSession) of
                                  Some x \<Rightarrow> (Inl x, concurrent e d, 0)
                                | None \<Rightarrow>
                                    shopping_for e (\<not> mongo_session) False user_id (of_int n)
                                      action item_id session_id current_balance
                                      [0..<max_retries] (concurrent e d))))))))"

text \<open>\<^verbatim>\<open>deduct_ficore_credits\<close> of the shopping module: the outer \<^verbatim>\<open>try\<close> block under
  its \<^verbatim>\<open>except Exception\<close> (lines 214-217), whose message does not contain the
  amount. The one message with \<^verbatim>\<open>{amount}\<close> that an unformattable amount reaches is that
  of line 70, inside the \<^verbatim>\<open>try\<close>: raising there ends in the same \<^verbatim>\<open>return False\<close> as
  line 72.\<close>

definition shopping_deduct_ficore_credits ::
  "env \<Rightarrow> db \<Rightarrow> string \<Rightarrow> pyval \<Rightarrow> string \<Rightarrow> string option \<Rightarrow> bool \<Rightarrow> string \<Rightarrow> exn + outcome" where
  "shopping_deduct_ficore_credits e d user_id amount action item_id mongo_session session_id =
     (case shopping_try e d user_id amount action item_id mongo_session session_id of
        (Inr b, d', n) \<Rightarrow> Inr \<lparr>ok = b, store = d', tries = n\<rparr>
      | (Inl x, d', n) \<Rightarrow> Inr \<lparr>ok = False, store = d', tries = n\<rparr>)"

subsection \<open>What reaches the caller\<close>

text \<open>Python refuses to convert an \<^verbatim>\<open>int\<close> of more than 4300 decimal digits to text
  (\<^verbatim>\<open>sys.get_int_max_str_digits()\<close>; \<^verbatim>\<open>ValueError: Exceeds the limit (4300 digits) for
  integer string conversion\<close>). \<open>fmt_amount amount\<close> says that a message containing
  \<^verbatim>\<open>{amount}\<close> can be built; floats and \<^verbatim>\<open>None\<close> always format.\<close>

definition int_max_str_digits :: nat where
  "int_max_str_digits = 4300"

fun fmt_amount :: "pyval \<Rightarrow> bool" where
  "fmt_amount (PyInt n) = (\<bar>n\<bar> < 10 ^ int_max_str_digits)"
| "fmt_amount (PyFloat q) = True"
| "fmt_amount PyNone = True"

text \<open>The \<^verbatim>\<open>try\<close> block of the budget module (lines 72-159) with its log messages. The
  messages of lines 75 and 87 do not contain the amount; those of lines 80 and 92 do,
  and are built whatever the log level is. Past line 92 the amount has been formatted
  once, so the later messages (lines 96, 111, 157) are built as well.\<close>

definition budget_try_logged ::
  "env \<Rightarrow> db \<Rightarrow> string \<Rightarrow> pyval \<Rightarrow> string \<Rightarrow> string option \<Rightarrow> string \<Rightarrow>
   (exn + bool) \<times> db \<times> nat" where
  "budget_try_logged e d user_id amount action budget_id session_id =
     (if user_id = [] then (Inr False, d, 0)
      else
        (case py_num amount of
           None \<Rightarrow> (Inl TypeError, d, 0)
         | Some a \<Rightarrow>
             (if a \<le> 0 then
                (if fmt_amount amount then (Inr False, d, 0) else (Inl ValueError, d, 0))
              else
                (case faults e 0 FindOne of
                   Some x \<Rightarrow> (Inl x, d, 0)
                 | None \<Rightarrow>
                     (case users d user_id of
                        None \<Rightarrow> (Inr False, d, 0)
                      | Some user \<Rightarrow>
                          (case get_balance user of
                             None \<Rightarrow> (Inl TypeError, d, 0)
                           | Some current_balance \<Rightarrow>
                               (if \<not> fmt_amount amount then (Inl ValueError, d, 0)
                                else if current_balance < a then (Inr False, d, 0)
                                else
                                  (case faults e 0 StartSession of
                                     Some x \<Rightarrow> (Inl x, concurrent e d, 0)
                                   | None \<Rightarrow>
                                       (case in_own_transaction e 0
                                               (transaction_body update_one_inc e 0 True user_id a
                                                  action budget_id session_id current_balance)
                                               (concurrent e d) of
                                          (None, d1) \<Rightarrow> (Inr True, d1, 1)
                                        | (Some x, d1) \<Rightarrow> (Inl x, d1, 1))))))))))"

text \<open>\<^verbatim>\<open>deduct_ficore_credits\<close> of the budget module as its caller meets it. The session
  lookup of line 70 stands before the \<^verbatim>\<open>try\<close>, so what it raises reaches the caller. The
  handler of lines 161-164 builds a message that contains \<^verbatim>\<open>{amount}\<close> again: when that
  cannot be done, the handler itself raises \<^verbatim>\<open>ValueError\<close>, and nothing catches it.\<close>

definition budget_call ::
  "env \<Rightarrow> db \<Rightarrow> string \<Rightarrow> pyval \<Rightarrow> string \<Rightarrow> string option \<Rightarrow> string \<Rightarrow> exn + outcome" where
  "budget_call e d user_id amount action budget_id session_id =
     (case faults e 0 SessionGet of
        Some x \<Rightarrow> Inl x
      | None \<Rightarrow>
          (case budget_try_logged e d user_id amount action budget_id session_id of
             (Inr b, d', n) \<Rightarrow> Inr \<lparr>ok = b, store = d', tries = n\<rparr>
           | (Inl x, d', n) \<Rightarrow>
               if fmt_amount amount then Inr \<lparr>ok = False, store = d', tries = n\<rparr>
               else Inl ValueError))"

text \<open>\<^verbatim>\<open>deduct_ficore_credits\<close> of the shopping module as its caller meets it: the session
  lookup of line 64 stands before the \<^verbatim>\<open>try\<close>; everything after it is under the handler
  of lines 214-217.\<close>

definition shopping_call ::
  "env \<Rightarrow> db \<Rightarrow> string \<Rightarrow> pyval \<Rightarrow> string \<Rightarrow> string option \<Rightarrow> bool \<Rightarrow> string \<Rightarrow> exn + outcome" where
  "shopping_call e d user_id amount action item_id mongo_session session_id =
     (case faults e 0 SessionGet of
        Some x \<Rightarrow> Inl x
      | None \<Rightarrow>
          shopping_deduct_ficore_credits e d user_id amount action item_id mongo_session
            session_id)"

section \<open>Notions used in the statements\<close>

text \<open>The numeric balance of a user, when the document exists and the field holds a
  number.\<close>

definition balance_of :: "db \<Rightarrow> string \<Rightarrow> rat option" where
  "balance_of d user_id =
     (case users d user_id of
        None \<Rightarrow> None
      | Some user \<Rightarrow> (case ficore_credit_balance user of Num b \<Rightarrow> Some b | _ \<Rightarrow> None))"


text \<open>The store with all three writes of one deduction: the new user document, the
  completed ledger document and the audit document.\<close>

definition all_three_writes ::
  "db \<Rightarrow> string \<Rightarrow> user_doc \<Rightarrow> rat \<Rightarrow> string \<Rightarrow> string option \<Rightarrow> string \<Rightarrow> rat \<Rightarrow> db" where
  "all_three_writes d user_id new amount action ref_id session_id current_balance =
     d\<lparr>users := (users d)(user_id \<mapsto> new),
       ficore_credit_transactions := ficore_credit_transactions d @
         [transaction_doc user_id amount action ref_id session_id completed],
       audit_logs := audit_logs d @
         [audit_doc user_id amount action ref_id current_balance]\<rparr>"

subsection \<open>Calls run one after another\<close>





subsection \<open>Concrete stores and environments\<close>

definition calm :: env where
  "calm = \<lparr>faults = (\<lambda>i p. None), concurrent = (\<lambda>d. d)\<rparr>"

text \<open>A write conflict on the first \<^verbatim>\<open>update_one\<close>, nothing afterwards.\<close>

definition flaky :: env where
  "flaky = \<lparr>faults = (\<lambda>i p. if i = 0 \<and> p = UpdateOne
               then Some (OperationFailure (Some [''TransientTransactionError''])) else None),
            concurrent = (\<lambda>d. d)\<rparr>"



text \<open>The audit insert raises.\<close>

definition audit_down :: env where
  "audit_down = \<lparr>faults = (\<lambda>i p. if p = InsertAudit then Some OtherException else None),
                 concurrent = (\<lambda>d. d)\<rparr>"

text \<open>Another request deletes user \<open>u1\<close> between the balance check and the update.\<close>

definition vanish :: env where
  "vanish = \<lparr>faults = (\<lambda>i p. None),
             concurrent = (\<lambda>d. d\<lparr>users := (users d)(''u1'' := None)\<rparr>)\<rparr>"

definition db_with :: "rat \<Rightarrow> db" where
  "db_with b = \<lparr>users = [''u1'' \<mapsto> \<lparr>ficore_credit_balance = Num b\<rparr>],
                ficore_credit_transactions = [], audit_logs = []\<rparr>"

section \<open>Auxiliary facts\<close>

lemma range_max_retries: "[0..<max_retries] = [0, 1, 2]"
  by (simp add: max_retries_def upt_rec)

lemma update_one_inc_Num:
  assumes "users d user_id = Some u" and "ficore_credit_balance u = Num b" and "a \<noteq> 0"
  shows "update_one_inc d user_id a =
           Inr (1, d\<lparr>users := (users d)(user_id \<mapsto> u\<lparr>ficore_credit_balance := Num (b - a)\<rparr>)\<rparr>)"
proof -
  have "u\<lparr>ficore_credit_balance := Num (b - a)\<rparr> \<noteq> u"
  proof
    assume "u\<lparr>ficore_credit_balance := Num (b - a)\<rparr> = u"
    then have "ficore_credit_balance (u\<lparr>ficore_credit_balance := Num (b - a)\<rparr>) = ficore_credit_balance u"
      by simp
    with assms show False by simp
  qed
  with assms show ?thesis
    by (simp add: update_one_inc_def modified_count_def)
qed

lemma update_one_set_Num:
  assumes "users d user_id = Some u" and "ficore_credit_balance u = Num b" and "a \<noteq> 0"
  shows "update_one_set d user_id a =
           Inr (1, d\<lparr>users := (users d)(user_id \<mapsto> u\<lparr>ficore_credit_balance := Num (b - a)\<rparr>)\<rparr>)"
proof -
  have "u\<lparr>ficore_credit_balance := Num (b - a)\<rparr> \<noteq> u"
  proof
    assume "u\<lparr>ficore_credit_balance := Num (b - a)\<rparr> = u"
    then have "ficore_credit_balance (u\<lparr>ficore_credit_balance := Num (b - a)\<rparr>) = ficore_credit_balance u"
      by simp
    with assms show False by simp
  qed
  with assms show ?thesis
    by (simp add: update_one_set_def modified_count_def)
qed

text \<open>A block whose storage calls all go through and whose update modifies the document.\<close>

lemma transaction_body_through:
  assumes "faults e i = (\<lambda>p. None)" and "update_one tx user_id a = Inr (n, tx1)" and "n \<noteq> 0"
  shows "transaction_body update_one e i c user_id a action ref_id sid cur tx =
           (None, insert_audit (audit_doc user_id a action ref_id cur)
                    (insert_ledger (transaction_doc user_id a action ref_id sid completed) tx1))"
  using assms by (simp add: transaction_body_def Let_def)

lemma budget_success:
  assumes "user_id \<noteq> []" and "py_num amount = Some a" and "0 < a"
    and "users d user_id = Some u" and "ficore_credit_balance u = Num b" and "a \<le> b"
    and "faults e = (\<lambda>i p. None)" and "concurrent e = (\<lambda>d. d)"
  shows "budget_deduct_ficore_credits e d user_id amount action budget_id sid =
           Inr \<lparr>ok = True,
                store = all_three_writes d user_id (u\<lparr>ficore_credit_balance := Num (b - a)\<rparr>)
                          a action budget_id sid b,
                tries = 1\<rparr>"
proof -
  have upd: "update_one_inc d user_id a =
      Inr (1, d\<lparr>users := (users d)(user_id \<mapsto> u\<lparr>ficore_credit_balance := Num (b - a)\<rparr>)\<rparr>)"
    using assms by (intro update_one_inc_Num) auto
  have f: "faults e 0 = (\<lambda>p. None)" using assms by simp
  have body: "transaction_body update_one_inc e 0 True user_id a action budget_id sid b d =
      (None, all_three_writes d user_id (u\<lparr>ficore_credit_balance := Num (b - a)\<rparr>)
                          a action budget_id sid b)"
    by (simp add: transaction_body_through [where update_one = update_one_inc, OF f upd]
        all_three_writes_def insert_audit_def insert_ledger_def)
  show ?thesis
    using assms body
    by (simp add: budget_deduct_ficore_credits_def budget_try_def in_own_transaction_def)
qed

lemma shopping_success:
  assumes "user_id \<noteq> []" and "py_int amount = Some n" and "n = 1 \<or> n = 2"
    and "users d user_id = Some u" and "ficore_credit_balance u = Num b" and "of_int n \<le> b"
    and "faults e = (\<lambda>i p. None)" and "concurrent e = (\<lambda>d. d)"
  shows "shopping_deduct_ficore_credits e d user_id amount action item_id mongo_session sid =
           Inr \<lparr>ok = True,
                store = all_three_writes d user_id
                          (u\<lparr>ficore_credit_balance := Num (b - of_int n)\<rparr>)
                          (of_int n) action item_id sid b,
                tries = 1\<rparr>"
proof -
  have n0: "(of_int n :: rat) \<noteq> 0" using assms(3) by auto
  have upd: "update_one_set d user_id (of_int n) =
      Inr (1, d\<lparr>users := (users d)(user_id \<mapsto> u\<lparr>ficore_credit_balance := Num (b - of_int n)\<rparr>)\<rparr>)"
    using assms n0 by (intro update_one_set_Num) auto
  have f: "faults e 0 = (\<lambda>p. None)" using assms by simp
  have body: "transaction_body update_one_set e 0 c user_id (of_int n) action item_id sid b d =
      (None, all_three_writes d user_id (u\<lparr>ficore_credit_balance := Num (b - of_int n)\<rparr>)
                          (of_int n) action item_id sid b)" for c
    by (simp add: transaction_body_through [where update_one = update_one_set, OF f upd]
        all_three_writes_def insert_audit_def insert_ledger_def)
  have att: "shopping_attempt e 0 (\<not> mongo_session) False user_id (of_int n) action item_id sid
      b d =
      (None, all_three_writes d user_id (u\<lparr>ficore_credit_balance := Num (b - of_int n)\<rparr>)
                          (of_int n) action item_id sid b)"
    using assms(7) by (simp add: shopping_attempt_def in_own_transaction_def body)
  show ?thesis
    using assms att
    by (auto simp add: shopping_deduct_ficore_credits_def shopping_try_def range_max_retries)
qed


lemma shopping_rejects:
  assumes "py_int amount = Some n"
    and "(n \<noteq> 1 \<and> n \<noteq> 2) \<or> user_id = [] \<or> users d user_id = None \<or>
         (\<exists>u c. users d user_id = Some u \<and> get_balance u = Some c \<and> c < of_int n)"
  shows "shopping_deduct_ficore_credits e d user_id amount action item_id mongo_session sid =
           Inr \<lparr>ok = False, store = d, tries = 0\<rparr>"
  using assms
  by (auto simp add: shopping_deduct_ficore_credits_def shopping_try_def split: option.splits)

text \<open>Where a block can end, and with which working copy.\<close>

lemma transaction_body_cases:
  assumes "transaction_body update_one e i c user_id a action ref_id sid cur tx = (x, tx')"
  shows "(x \<noteq> None \<and> tx' = tx) \<or>
         (\<exists>n tx1. update_one tx user_id a = Inr (n, tx1) \<and>
            ((x \<noteq> None \<and> tx' = tx1) \<or>
             (n = 0 \<and> x = Some ValueError \<and>
                tx' = insert_ledger (transaction_doc user_id a action ref_id sid failed) tx1) \<or>
             (n \<noteq> 0 \<and> x \<noteq> None \<and>
                tx' = insert_ledger (transaction_doc user_id a action ref_id sid completed) tx1) \<or>
             (n \<noteq> 0 \<and> (x = None \<or> c) \<and>
                tx' = insert_audit (audit_doc user_id a action ref_id cur)
                        (insert_ledger (transaction_doc user_id a action ref_id sid completed)
                           tx1))))"
  using assms
  by (auto simp add: transaction_body_def Let_def
      split: option.splits sum.splits if_splits prod.splits)

lemma transaction_body_None:
  assumes "transaction_body update_one e i c user_id a action ref_id sid cur tx = (None, tx')"
  shows "\<exists>n tx1. update_one tx user_id a = Inr (n, tx1) \<and> n \<noteq> 0 \<and>
           faults e i UpdateOne = None \<and> faults e i InsertLedger = None \<and>
           faults e i InsertAudit = None \<and> (c \<longrightarrow> faults e i CommitTransaction = None) \<and>
           tx' = insert_audit (audit_doc user_id a action ref_id cur)
                   (insert_ledger (transaction_doc user_id a action ref_id sid completed) tx1)"
  using assms
  by (auto simp add: transaction_body_def Let_def
      split: option.splits sum.splits if_splits prod.splits)

lemma in_own_transaction_cases:
  assumes "in_own_transaction e i body d = (x, d')"
  shows "(x \<noteq> None \<and> d' = d) \<or>
         (x = None \<and> faults e i StartTransaction = None \<and> body d = (None, d'))"
  using assms
  by (auto simp add: in_own_transaction_def split: option.splits prod.splits)

text \<open>What an update that modified a document did to the store.\<close>

lemma update_one_modified:
  assumes "update_one = update_one_inc \<or> update_one = update_one_set"
    and "update_one d user_id a = Inr (n, d1)" and "n \<noteq> 0"
  shows "\<exists>u new. users d user_id = Some u \<and> new \<noteq> u \<and>
           d1 = d\<lparr>users := (users d)(user_id \<mapsto> new)\<rparr>"
  using assms
  by (auto simp add: update_one_inc_def update_one_set_def modified_count_def Let_def
      split: option.splits field.splits if_splits)

lemma three_writes_eq:
  "insert_audit (audit_doc user_id a action ref_id cur)
     (insert_ledger (transaction_doc user_id a action ref_id sid completed)
        (d\<lparr>users := (users d)(user_id \<mapsto> new)\<rparr>)) =
   all_three_writes d user_id new a action ref_id sid cur"
  by (simp add: all_three_writes_def insert_audit_def insert_ledger_def)

text \<open>An attempt in a transaction of its own: all three writes or none.\<close>

lemma own_attempt_all_or_nothing:
  assumes "update_one = update_one_inc \<or> update_one = update_one_set"
    and "in_own_transaction e i
           (transaction_body update_one e i True user_id a action ref_id sid cur) d = (x, d')"
  shows "(x \<noteq> None \<and> d' = d) \<or>
         (x = None \<and> (\<exists>u new. users d user_id = Some u \<and> new \<noteq> u \<and>
            update_one d user_id a = Inr (1, d\<lparr>users := (users d)(user_id \<mapsto> new)\<rparr>) \<and>
            d' = all_three_writes d user_id new a action ref_id sid cur))"
proof (cases x)
  case (Some y)
  with in_own_transaction_cases [OF assms(2)] show ?thesis by simp
next
  case None
  with in_own_transaction_cases [OF assms(2)]
  have "transaction_body update_one e i True user_id a action ref_id sid cur d = (None, d')"
    by simp
  from transaction_body_None [OF this] obtain n tx1 where
    u: "update_one d user_id a = Inr (n, tx1)" and n: "n \<noteq> 0" and
    d': "d' = insert_audit (audit_doc user_id a action ref_id cur)
                (insert_ledger (transaction_doc user_id a action ref_id sid completed) tx1)"
    by blast
  from update_one_modified [OF assms(1) u n] obtain v new where
    v: "users d user_id = Some v" "new \<noteq> v" "tx1 = d\<lparr>users := (users d)(user_id \<mapsto> new)\<rparr>"
    by blast
  have "n = 1"
    using assms(1) u n
    by (auto simp add: update_one_inc_def update_one_set_def modified_count_def Let_def
        split: option.splits field.splits if_splits)
  with None u v d' show ?thesis
    by (auto simp add: three_writes_eq)
qed

lemma budget_try_cases:
  assumes "budget_try e d user_id amount action ref_id sid = (res, d', k)"
  shows "(res = Inr True \<and> k = 1 \<and>
            (\<exists>a cur u new. py_num amount = Some a \<and> users (concurrent e d) user_id = Some u \<and>
               new \<noteq> u \<and>
               d' = all_three_writes (concurrent e d) user_id new a action ref_id sid cur)) \<or>
         (res \<noteq> Inr True \<and> k \<le> 1 \<and> (d' = d \<or> d' = concurrent e d))"
proof (cases "\<exists>a u cur. user_id \<noteq> [] \<and> py_num amount = Some a \<and> 0 < a \<and>
    faults e 0 FindOne = None \<and> users d user_id = Some u \<and> get_balance u = Some cur \<and>
    a \<le> cur \<and> faults e 0 StartSession = None")
  case False
  with assms show ?thesis
    by (auto simp add: budget_try_def split: if_splits option.splits)
next
  case True
  then obtain a u cur where h: "user_id \<noteq> []" "py_num amount = Some a" "0 < a"
    "faults e 0 FindOne = None" "users d user_id = Some u" "get_balance u = Some cur"
    "a \<le> cur" "faults e 0 StartSession = None"
    by blast
  obtain x d1 where att: "in_own_transaction e 0
      (transaction_body update_one_inc e 0 True user_id a action ref_id sid cur)
      (concurrent e d) = (x, d1)"
    by (cases "in_own_transaction e 0
      (transaction_body update_one_inc e 0 True user_id a action ref_id sid cur)
      (concurrent e d)")
  have res: "(res, d', k) = (case x of None \<Rightarrow> (Inr True, d1, 1) | Some y \<Rightarrow> (Inl y, d1, 1))"
    using assms h att by (simp add: budget_try_def split: option.splits)
  from own_attempt_all_or_nothing [OF _ att]
  have "(x \<noteq> None \<and> d1 = concurrent e d) \<or>
        (x = None \<and> (\<exists>u new. users (concurrent e d) user_id = Some u \<and> new \<noteq> u \<and>
           d1 = all_three_writes (concurrent e d) user_id new a action ref_id sid cur))"
    by blast
  with res h(2) show ?thesis
    by (cases x) auto
qed


lemma shopping_attempt_own_cases:
  assumes "shopping_attempt e i True ended user_id a action ref_id sid cur d = (x, d1)"
  shows "(x \<noteq> None \<and> d1 = d) \<or>
         (x = None \<and> \<not> ended \<and> (\<exists>u new. users d user_id = Some u \<and> new \<noteq> u \<and>
            d1 = all_three_writes d user_id new a action ref_id sid cur))"
proof (cases ended)
  case True
  with assms show ?thesis
    by (auto simp add: shopping_attempt_def)
next
  case False
  with assms have own: "in_own_transaction e i
      (transaction_body update_one_set e i True user_id a action ref_id sid cur) d = (x, d1)"
    by (simp add: shopping_attempt_def)
  from own_attempt_all_or_nothing [OF _ own] False show ?thesis
    by blast
qed

lemma shopping_for_own_cases:
  assumes "shopping_for e True ended user_id a action ref_id sid cur attempts d = (res, d', k)"
  shows "(res = Inr True \<and>
            (\<exists>u new. users d user_id = Some u \<and> new \<noteq> u \<and>
               d' = all_three_writes d user_id new a action ref_id sid cur)) \<or>
         (res \<noteq> Inr True \<and> d' = d)"
  using assms
proof (induction attempts arbitrary: res d' k ended)
  case Nil
  then show ?case by auto
next
  case (Cons attempt rest)
  obtain x d1 where att: "shopping_attempt e attempt True ended user_id a action ref_id sid cur d =
      (x, d1)"
    by (cases "shopping_attempt e attempt True ended user_id a action ref_id sid cur d")
  from shopping_attempt_own_cases [OF att]
  have c: "(x \<noteq> None \<and> d1 = d) \<or>
        (x = None \<and> (\<exists>u new. users d user_id = Some u \<and> new \<noteq> u \<and>
           d1 = all_three_writes d user_id new a action ref_id sid cur))"
    by blast
  show ?case
  proof (cases x)
    case None
    with Cons.prems att c show ?thesis by auto
  next
    case (Some y)
    with c have d1: "d1 = d" by simp
    show ?thesis
    proof (cases "shopping_except attempt y")
      case Continue
      obtain r2 d2 n2 where rest: "shopping_for e True (ended \<or> True) user_id a action ref_id sid
          cur rest d = (r2, d2, n2)"
        by (cases "shopping_for e True (ended \<or> True) user_id a action ref_id sid cur rest d")
      with Cons.prems att Some d1 Continue have "res = r2" "d' = d2" by auto
      with Cons.IH [OF rest] show ?thesis by simp
    next
      case ReturnFalse
      with Cons.prems att Some d1 show ?thesis by auto
    next
      case (Reraise z)
      with Cons.prems att Some d1 show ?thesis by auto
    qed
  qed
qed


lemma shopping_try_own_cases:
  assumes "shopping_try e d user_id amount action ref_id False sid = (res, d', k)"
  shows "(res = Inr True \<and>
            (\<exists>n cur u new. py_int amount = Some n \<and> users (concurrent e d) user_id = Some u \<and>
               new \<noteq> u \<and>
               d' = all_three_writes (concurrent e d) user_id new (of_int n) action ref_id sid
                      cur)) \<or>
         (res \<noteq> Inr True \<and> (d' = d \<or> d' = concurrent e d))"
proof (cases "\<exists>n u cur. user_id \<noteq> [] \<and> py_int amount = Some n \<and> (n = 1 \<or> n = 2) \<and>
    faults e 0 FindOne = None \<and> users d user_id = Some u \<and> get_balance u = Some cur \<and>
    of_int n \<le> cur \<and> faults e 0 StartSession = None")
  case False
  with assms show ?thesis
    by (auto simp add: shopping_try_def split: if_splits option.splits)
next
  case True
  then obtain n u cur where h: "user_id \<noteq> []" "py_int amount = Some n" "n = 1 \<or> n = 2"
    "faults e 0 FindOne = None" "users d user_id = Some u" "get_balance u = Some cur"
    "of_int n \<le> cur" "faults e 0 StartSession = None"
    by blast
  have "shopping_for e True False user_id (of_int n) action ref_id sid cur [0..<max_retries]
      (concurrent e d) = (res, d', k)"
    using assms h by (auto simp add: shopping_try_def)
  from shopping_for_own_cases [OF this] h(2) show ?thesis
    by auto
qed


text \<open>Attempts that went through met no fault.\<close>

lemma shopping_attempt_None:
  assumes "shopping_attempt e i owns ended user_id a action ref_id sid cur d = (None, d1)"
  shows "faults e i UpdateOne = None \<and> faults e i InsertLedger = None \<and>
         faults e i InsertAudit = None"
proof -
  have "transaction_body update_one_set e i owns user_id a action ref_id sid cur d = (None, d1)"
    using assms
    by (auto simp add: shopping_attempt_def in_own_transaction_def
        split: if_splits option.splits prod.splits)
  from transaction_body_None [OF this] show ?thesis by blast
qed

lemma shopping_for_True:
  "shopping_for e owns ended user_id a action ref_id sid cur attempts d = (Inr True, d', k) \<Longrightarrow>
     \<exists>i \<in> set attempts. faults e i UpdateOne = None \<and> faults e i InsertLedger = None \<and>
       faults e i InsertAudit = None"
proof (induction attempts arbitrary: d d' k ended)
  case Nil
  then show ?case by simp
next
  case (Cons attempt rest)
  obtain x d1 where att: "shopping_attempt e attempt owns ended user_id a action ref_id sid cur d =
      (x, d1)"
    by (cases "shopping_attempt e attempt owns ended user_id a action ref_id sid cur d")
  show ?case
  proof (cases x)
    case None
    with att shopping_attempt_None show ?thesis by fastforce
  next
    case (Some y)
    show ?thesis
    proof (cases "shopping_except attempt y")
      case Continue
      obtain r2 d2 n2 where rest: "shopping_for e owns (ended \<or> owns) user_id a action ref_id sid
          cur rest d1 = (r2, d2, n2)"
        by (cases "shopping_for e owns (ended \<or> owns) user_id a action ref_id sid cur rest d1")
      with Cons.prems att Some Continue have "r2 = Inr True" by auto
      with Cons.IH rest show ?thesis by auto
    next
      case ReturnFalse
      with Cons.prems att Some show ?thesis by auto
    next
      case (Reraise z)
      with Cons.prems att Some show ?thesis by auto
    qed
  qed
qed

lemma shopping_try_True:
  assumes "shopping_try e d user_id amount action ref_id mongo_session sid = (Inr True, d', k)"
  shows "user_id \<noteq> [] \<and>
         (\<exists>n u c. py_int amount = Some n \<and> (n = 1 \<or> n = 2) \<and> users d user_id = Some u \<and>
            get_balance u = Some c \<and> of_int n \<le> c) \<and>
         faults e 0 FindOne = None \<and>
         (\<exists>i < max_retries. faults e i UpdateOne = None \<and> faults e i InsertLedger = None \<and>
            faults e i InsertAudit = None)"
proof -
  from assms obtain n u c where h: "user_id \<noteq> []" "py_int amount = Some n" "n = 1 \<or> n = 2"
    "faults e 0 FindOne = None" "users d user_id = Some u" "get_balance u = Some c"
    "of_int n \<le> c"
    by (auto simp add: shopping_try_def split: if_splits option.splits)
  with assms have "shopping_for e (\<not> mongo_session) False user_id (of_int n) action ref_id sid c
      [0..<max_retries] (concurrent e d) = (Inr True, d', k)"
    by (auto simp add: shopping_try_def split: if_splits option.splits)
  from shopping_for_True [OF this] have "\<exists>i < max_retries. faults e i UpdateOne = None \<and>
      faults e i InsertLedger = None \<and> faults e i InsertAudit = None"
    by auto
  with h show ?thesis by blast
qed


lemma shopping_result:
  "shopping_try e d user_id amount action ref_id mongo_session sid = (res, d', k) \<Longrightarrow>
     shopping_deduct_ficore_credits e d user_id amount action ref_id mongo_session sid =
       Inr \<lparr>ok = (res = Inr True), store = d', tries = k\<rparr>"
  by (auto simp add: shopping_deduct_ficore_credits_def split: sum.splits)




text \<open>On a session of its own the second attempt meets the session that the first one
  ended: after a write conflict on the first update the call makes two attempts and
  returns \<^verbatim>\<open>False\<close>, although the store would have raised nothing more.\<close>

lemma owned_session_retry_meets_ended_session:
  "shopping_attempt flaky 1 True True ''u1'' 1 ''x'' None ''s'' 5 (db_with 5) =
     (Some InvalidOperation, db_with 5) \<and>
   shopping_deduct_ficore_credits flaky (db_with 5) ''u1'' (PyInt 1) ''x'' None False ''s'' =
     Inr \<lparr>ok = False, store = db_with 5, tries = 2\<rparr>"
  by (simp add: shopping_deduct_ficore_credits_def shopping_try_def shopping_attempt_def
      shopping_except_def in_own_transaction_def transaction_body_def range_max_retries
      flaky_def db_with_def)
    (simp add: max_retries_def)

text \<open>With a session lookup that succeeds and an amount that can be formatted, the caller
  meets exactly the \<^verbatim>\<open>try\<close> block under its handler.\<close>

lemma budget_try_logged_formattable:
  "fmt_amount amount \<Longrightarrow>
     budget_try_logged e d user_id amount action budget_id sid =
     budget_try e d user_id amount action budget_id sid"
  by (auto simp add: budget_try_logged_def budget_try_def split: option.splits)

lemma budget_call_formattable:
  "faults e 0 SessionGet = None \<Longrightarrow> fmt_amount amount \<Longrightarrow>
     budget_call e d user_id amount action budget_id sid =
     budget_deduct_ficore_credits e d user_id amount action budget_id sid"
  by (simp add: budget_call_def budget_deduct_ficore_credits_def budget_try_logged_formattable
      split: prod.splits sum.splits)

lemma shopping_call_session:
  "faults e 0 SessionGet = None \<Longrightarrow>
     shopping_call e d user_id amount action item_id mongo_session sid =
     shopping_deduct_ficore_credits e d user_id amount action item_id mongo_session sid"
  by (simp add: shopping_call_def)

lemma unformattable_amount:
  "\<not> fmt_amount (PyInt (10 ^ int_max_str_digits))"
  "(2::int) < 10 ^ int_max_str_digits"
proof -
  show "\<not> fmt_amount (PyInt (10 ^ int_max_str_digits))"
    by simp
  have "(10::int) \<le> 10 ^ int_max_str_digits"
    by (rule self_le_power) (simp_all add: int_max_str_digits_def)
  then show "(2::int) < 10 ^ int_max_str_digits"
    by simp
qed

lemmas run_defs = budget_deduct_ficore_credits_def budget_try_def in_own_transaction_def
  shopping_deduct_ficore_credits_def shopping_try_def shopping_attempt_def
  shopping_except_def transaction_body_def update_one_inc_def update_one_set_def
  modified_count_def insert_ledger_def insert_audit_def transaction_doc_def audit_doc_def
  range_max_retries

section \<open>The claims\<close>

text \<open>
  \<^bold>\<open>C1\<close> (as amended). Whenever the routine opens the transaction itself (every call
  of the budget module; a call of the shopping module without \<^verbatim>\<open>mongo_session\<close>), the
  store afterwards either holds all three writes of the deduction (the changed user
  document, the completed ledger document and the audit document) on top of what other
  requests committed, and the call returned \<^verbatim>\<open>True\<close>; or it holds none of them, and the
  call returned \<^verbatim>\<open>False\<close>.
\<close>

theorem C1_own_transaction_all_or_nothing:
  "(\<exists>r. budget_deduct_ficore_credits e d user_id amount action ref_id sid = Inr r \<and>
      (if ok r
       then \<exists>a cur u new. py_num amount = Some a \<and> users (concurrent e d) user_id = Some u \<and>
              new \<noteq> u \<and>
              store r = all_three_writes (concurrent e d) user_id new a action ref_id sid cur
       else store r = d \<or> store r = concurrent e d)) \<and>
   (\<exists>r. shopping_deduct_ficore_credits e d user_id amount action ref_id False sid = Inr r \<and>
      (if ok r
       then \<exists>n cur u new. py_int amount = Some n \<and> users (concurrent e d) user_id = Some u \<and>
              new \<noteq> u \<and>
              store r = all_three_writes (concurrent e d) user_id new (of_int n) action ref_id
                          sid cur
       else store r = d \<or> store r = concurrent e d))"
proof
  obtain res d' k where t: "budget_try e d user_id amount action ref_id sid = (res, d', k)"
    by (cases "budget_try e d user_id amount action ref_id sid")
  have "budget_deduct_ficore_credits e d user_id amount action ref_id sid =
      Inr \<lparr>ok = (res = Inr True), store = d', tries = k\<rparr>"
    using t by (auto simp add: budget_deduct_ficore_credits_def split: sum.splits)
  with budget_try_cases [OF t]
  show "\<exists>r. budget_deduct_ficore_credits e d user_id amount action ref_id sid = Inr r \<and>
      (if ok r
       then \<exists>a cur u new. py_num amount = Some a \<and> users (concurrent e d) user_id = Some u \<and>
              new \<noteq> u \<and>
              store r = all_three_writes (concurrent e d) user_id new a action ref_id sid cur
       else store r = d \<or> store r = concurrent e d)"
    by auto
next
  obtain res d' k where t: "shopping_try e d user_id amount action ref_id False sid =
      (res, d', k)"
    by (cases "shopping_try e d user_id amount action ref_id False sid")
  have "shopping_deduct_ficore_credits e d user_id amount action ref_id False sid =
      Inr \<lparr>ok = (res = Inr True), store = d', tries = k\<rparr>"
    using t by (auto simp add: shopping_deduct_ficore_credits_def split: sum.splits)
  with shopping_try_own_cases [OF t]
  show "\<exists>r. shopping_deduct_ficore_credits e d user_id amount action ref_id False sid = Inr r \<and>
      (if ok r
       then \<exists>n cur u new. py_int amount = Some n \<and> users (concurrent e d) user_id = Some u \<and>
              new \<noteq> u \<and>
              store r = all_three_writes (concurrent e d) user_id new (of_int n) action ref_id
                          sid cur
       else store r = d \<or> store r = concurrent e d)"
    by auto
qed

text \<open>
  At a store whose audit insert raises, both modules return \<^verbatim>\<open>False\<close> and leave the
  store as it was.
\<close>

theorem C1_own_transaction_all_or_nothing_witness:
  "budget_deduct_ficore_credits audit_down (db_with 5) ''u1'' (PyInt 1) ''x'' None ''s'' =
     Inr \<lparr>ok = False, store = db_with 5, tries = 1\<rparr> \<and>
   shopping_deduct_ficore_credits audit_down (db_with 5) ''u1'' (PyInt 1) ''x'' None False ''s'' =
     Inr \<lparr>ok = False, store = db_with 5, tries = 1\<rparr>"
proof -
  have b: "budget_deduct_ficore_credits audit_down (db_with 5) ''u1'' (PyInt 1) ''x'' None ''s'' =
     Inr \<lparr>ok = False, store = db_with 5, tries = 1\<rparr>"
    by (simp add: run_defs audit_down_def db_with_def)
  have s: "shopping_deduct_ficore_credits audit_down (db_with 5) ''u1'' (PyInt 1) ''x'' None
      False ''s'' = Inr \<lparr>ok = False, store = db_with 5, tries = 1\<rparr>"
    by (simp add: run_defs audit_down_def db_with_def)
  from C1_own_transaction_all_or_nothing [of audit_down "db_with 5" "''u1''" "PyInt 1" "''x''"
      None "''s''"] b s
  show ?thesis
    by simp
qed

text \<open>
  The claim as stated fails for a call of the shopping module on a session supplied by
  the caller: when the audit insert raises, the call returns \<^verbatim>\<open>False\<close> without aborting
  anything, and the decremented balance and the completed ledger document stay on the
  caller's session.
\<close>

theorem C1_counterexample:
  "shopping_deduct_ficore_credits audit_down (db_with 5) ''u1'' (PyInt 1) ''x'' None True ''s'' =
     Inr \<lparr>ok = False,
          store = \<lparr>users = [''u1'' \<mapsto> \<lparr>ficore_credit_balance = Num 4\<rparr>],
            ficore_credit_transactions =
              [\<lparr>l_user_id = ''u1'', l_action = ''x'', l_amount = - 1, l_ref_id = None,
                l_session_id = ''s'', l_status = completed\<rparr>],
            audit_logs = []\<rparr>,
          tries = 1\<rparr>"
  by (simp add: db_with_def audit_down_def range_max_retries
      shopping_deduct_ficore_credits_def shopping_try_def shopping_attempt_def
      shopping_except_def transaction_body_def update_one_set_def modified_count_def
      insert_ledger_def insert_audit_def transaction_doc_def audit_doc_def)

text \<open>
  \<^bold>\<open>C2\<close> (as amended). A call with a non-empty \<^verbatim>\<open>user_id\<close>, an existing user whose
  stored balance \<open>b\<close> is a number, a store that raises nothing and no other request in
  between returns \<^verbatim>\<open>True\<close> after one attempt, lowers the balance by exactly the deducted
  amount, and appends exactly one ledger document (status \<open>completed\<close>, amount the
  negated deduction) and exactly one audit document. In the budget module this holds
  for every positive amount \<open>a \<le> b\<close>; in the shopping module for the amounts whose
  \<^verbatim>\<open>int()\<close> is 1 or 2, and the deducted amount is that integer.
\<close>

theorem C2_valid_deduction_applied:
  assumes "user_id \<noteq> []" and "users d user_id = Some u" and "ficore_credit_balance u = Num b"
    and "faults e = (\<lambda>i p. None)" and "concurrent e = (\<lambda>d. d)"
  shows "(py_num amount = Some a \<and> 0 < a \<and> a \<le> b \<longrightarrow>
            budget_deduct_ficore_credits e d user_id amount action ref_id sid =
              Inr \<lparr>ok = True,
                   store = d\<lparr>users := (users d)(user_id \<mapsto> u\<lparr>ficore_credit_balance := Num (b - a)\<rparr>),
                     ficore_credit_transactions := ficore_credit_transactions d @
                       [\<lparr>l_user_id = user_id, l_action = action, l_amount = - a,
                         l_ref_id = ref_str ref_id, l_session_id = sid, l_status = completed\<rparr>],
                     audit_logs := audit_logs d @
                       [\<lparr>a_admin_id = ''system'', a_action = ''deduct_ficore_credits_'' @ action,
                         a_user_id = user_id, a_amount = a, a_ref_id = ref_str ref_id,
                         previous_balance = b, new_balance = b - a\<rparr>]\<rparr>,
                   tries = 1\<rparr>) \<and>
         (py_int amount = Some n \<and> (n = 1 \<or> n = 2) \<and> of_int n \<le> b \<longrightarrow>
            shopping_deduct_ficore_credits e d user_id amount action ref_id mongo_session sid =
              Inr \<lparr>ok = True,
                   store = d\<lparr>users := (users d)(user_id \<mapsto>
                       u\<lparr>ficore_credit_balance := Num (b - of_int n)\<rparr>),
                     ficore_credit_transactions := ficore_credit_transactions d @
                       [\<lparr>l_user_id = user_id, l_action = action, l_amount = - of_int n,
                         l_ref_id = ref_str ref_id, l_session_id = sid, l_status = completed\<rparr>],
                     audit_logs := audit_logs d @
                       [\<lparr>a_admin_id = ''system'', a_action = ''deduct_ficore_credits_'' @ action,
                         a_user_id = user_id, a_amount = of_int n, a_ref_id = ref_str ref_id,
                         previous_balance = b, new_balance = b - of_int n\<rparr>]\<rparr>,
                   tries = 1\<rparr>)"
proof (intro conjI impI)
  assume "py_num amount = Some a \<and> 0 < a \<and> a \<le> b"
  with assms
  have "budget_deduct_ficore_credits e d user_id amount action ref_id sid =
      Inr \<lparr>ok = True,
           store = all_three_writes d user_id (u\<lparr>ficore_credit_balance := Num (b - a)\<rparr>)
                     a action ref_id sid b,
           tries = 1\<rparr>"
    by (intro budget_success) auto
  then show "budget_deduct_ficore_credits e d user_id amount action ref_id sid =
      Inr \<lparr>ok = True,
           store = d\<lparr>users := (users d)(user_id \<mapsto> u\<lparr>ficore_credit_balance := Num (b - a)\<rparr>),
             ficore_credit_transactions := ficore_credit_transactions d @
               [\<lparr>l_user_id = user_id, l_action = action, l_amount = - a,
                 l_ref_id = ref_str ref_id, l_session_id = sid, l_status = completed\<rparr>],
             audit_logs := audit_logs d @
               [\<lparr>a_admin_id = ''system'', a_action = ''deduct_ficore_credits_'' @ action,
                 a_user_id = user_id, a_amount = a, a_ref_id = ref_str ref_id,
                 previous_balance = b, new_balance = b - a\<rparr>]\<rparr>,
           tries = 1\<rparr>"
    by (simp add: all_three_writes_def transaction_doc_def audit_doc_def)
next
  assume "py_int amount = Some n \<and> (n = 1 \<or> n = 2) \<and> of_int n \<le> b"
  with assms
  have "shopping_deduct_ficore_credits e d user_id amount action ref_id mongo_session sid =
      Inr \<lparr>ok = True,
           store = all_three_writes d user_id
                     (u\<lparr>ficore_credit_balance := Num (b - of_int n)\<rparr>)
                     (of_int n) action ref_id sid b,
           tries = 1\<rparr>"
    by (intro shopping_success) auto
  then show "shopping_deduct_ficore_credits e d user_id amount action ref_id mongo_session sid =
      Inr \<lparr>ok = True,
           store = d\<lparr>users := (users d)(user_id \<mapsto>
               u\<lparr>ficore_credit_balance := Num (b - of_int n)\<rparr>),
             ficore_credit_transactions := ficore_credit_transactions d @
               [\<lparr>l_user_id = user_id, l_action = action, l_amount = - of_int n,
                 l_ref_id = ref_str ref_id, l_session_id = sid, l_status = completed\<rparr>],
             audit_logs := audit_logs d @
               [\<lparr>a_admin_id = ''system'', a_action = ''deduct_ficore_credits_'' @ action,
                 a_user_id = user_id, a_amount = of_int n, a_ref_id = ref_str ref_id,
                 previous_balance = b, new_balance = b - of_int n\<rparr>]\<rparr>,
           tries = 1\<rparr>"
    by (simp add: all_three_writes_def transaction_doc_def audit_doc_def)
qed

text \<open>The theorem at balance 5 and amount 2, in both modules.\<close>

theorem C2_valid_deduction_applied_witness:
  "budget_deduct_ficore_credits calm (db_with 5) ''u1'' (PyInt 2) ''x'' None ''s'' =
     Inr \<lparr>ok = True,
          store = \<lparr>users = [''u1'' \<mapsto> \<lparr>ficore_credit_balance = Num 3\<rparr>],
            ficore_credit_transactions =
              [\<lparr>l_user_id = ''u1'', l_action = ''x'', l_amount = - 2, l_ref_id = None,
                l_session_id = ''s'', l_status = completed\<rparr>],
            audit_logs =
              [\<lparr>a_admin_id = ''system'', a_action = ''deduct_ficore_credits_x'',
                a_user_id = ''u1'', a_amount = 2, a_ref_id = None,
                previous_balance = 5, new_balance = 3\<rparr>]\<rparr>,
          tries = 1\<rparr> \<and>
   shopping_deduct_ficore_credits calm (db_with 5) ''u1'' (PyInt 2) ''x'' None False ''s'' =
     Inr \<lparr>ok = True,
          store = \<lparr>users = [''u1'' \<mapsto> \<lparr>ficore_credit_balance = Num 3\<rparr>],
            ficore_credit_transactions =
              [\<lparr>l_user_id = ''u1'', l_action = ''x'', l_amount = - 2, l_ref_id = None,
                l_session_id = ''s'', l_status = completed\<rparr>],
            audit_logs =
              [\<lparr>a_admin_id = ''system'', a_action = ''deduct_ficore_credits_x'',
                a_user_id = ''u1'', a_amount = 2, a_ref_id = None,
                previous_balance = 5, new_balance = 3\<rparr>]\<rparr>,
          tries = 1\<rparr>"
  using C2_valid_deduction_applied [of "''u1''" "db_with 5" "\<lparr>ficore_credit_balance = Num 5\<rparr>" 5
      calm "PyInt 2" 2 "''x''" None "''s''" 2 False]
  by (simp add: calm_def db_with_def)

text \<open>The claim as stated fails in the shopping module: amount 4 against balance 5 is
  refused although the user exists, the balance suffices and the store raises nothing.\<close>

theorem C2_counterexample:
  "balance_of (db_with 5) ''u1'' = Some 5 \<and> py_num (PyInt 4) = Some 4 \<and> (0::rat) < 4 \<and>
   (4::rat) \<le> 5 \<and>
   shopping_deduct_ficore_credits calm (db_with 5) ''u1'' (PyInt 4) ''x'' None False ''s'' =
     Inr \<lparr>ok = False, store = db_with 5, tries = 0\<rparr>"
  by (simp add: balance_of_def db_with_def shopping_deduct_ficore_credits_def shopping_try_def)





text \<open>
  \<^bold>\<open>C5\<close>. The claim wants the ledger document with status \<open>failed\<close> to be observable
  after a decrement that modified nothing. Here another request deletes the user
  between the balance check and the update: the block inserts the failed document into
  the working copy of the transaction and raises \<^verbatim>\<open>ValueError\<close>; the transaction is
  aborted, the call returns \<^verbatim>\<open>False\<close>, and the ledger of the store is empty afterwards,
  in both modules.
\<close>

theorem C5_failed_entry_rolled_back:
  "transaction_body update_one_inc vanish 0 True ''u1'' 3 ''x'' None ''s'' 5
       (concurrent vanish (db_with 5)) =
     (Some ValueError,
      \<lparr>users = Map.empty,
       ficore_credit_transactions =
         [\<lparr>l_user_id = ''u1'', l_action = ''x'', l_amount = - 3, l_ref_id = None,
           l_session_id = ''s'', l_status = failed\<rparr>],
       audit_logs = []\<rparr>) \<and>
   budget_deduct_ficore_credits vanish (db_with 5) ''u1'' (PyInt 3) ''x'' None ''s'' =
     Inr \<lparr>ok = False,
          store = \<lparr>users = Map.empty, ficore_credit_transactions = [], audit_logs = []\<rparr>,
          tries = 1\<rparr> \<and>
   shopping_deduct_ficore_credits vanish (db_with 5) ''u1'' (PyInt 1) ''x'' None False ''s'' =
     Inr \<lparr>ok = False,
          store = \<lparr>users = Map.empty, ficore_credit_transactions = [], audit_logs = []\<rparr>,
          tries = 1\<rparr>"
  by (simp add: db_with_def vanish_def range_max_retries
      budget_deduct_ficore_credits_def budget_try_def in_own_transaction_def
      shopping_deduct_ficore_credits_def shopping_try_def shopping_attempt_def
      shopping_except_def transaction_body_def update_one_inc_def update_one_set_def
      modified_count_def insert_ledger_def insert_audit_def transaction_doc_def audit_doc_def)




text \<open>
  \<^bold>\<open>C7\<close>. The claim wants every call to return a boolean and no exception to reach the
  caller. Here the budget module is called with an \<^verbatim>\<open>int\<close> amount of 4301 digits, for an
  existing user and a store that raises nothing: the message of line 92 cannot be
  built, the handler of lines 161-164 catches that \<^verbatim>\<open>ValueError\<close> and builds a message
  with the amount again, and this second \<^verbatim>\<open>ValueError\<close> reaches the caller. The
  shopping module, whose handler does not format the amount, returns \<^verbatim>\<open>False\<close> on the
  same arguments.
\<close>

theorem C7_handler_raises_to_the_caller:
  "\<not> fmt_amount (PyInt (10 ^ int_max_str_digits)) \<and>
   budget_call calm (db_with 5) ''u1'' (PyInt (10 ^ int_max_str_digits)) ''x'' None ''s'' =
     Inl ValueError \<and>
   shopping_call calm (db_with 5) ''u1'' (PyInt (10 ^ int_max_str_digits)) ''x'' None False ''s'' =
     Inr \<lparr>ok = False, store = db_with 5, tries = 0\<rparr>"
proof -
  have big: "(10::int) ^ int_max_str_digits \<noteq> 1" "(10::int) ^ int_max_str_digits \<noteq> 2"
    using unformattable_amount(2) by simp_all
  have b: "budget_call calm (db_with 5) ''u1'' (PyInt (10 ^ int_max_str_digits)) ''x'' None ''s'' =
      Inl ValueError"
    using unformattable_amount(1)
    by (simp add: budget_call_def budget_try_logged_def calm_def db_with_def)
  have s: "shopping_call calm (db_with 5) ''u1'' (PyInt (10 ^ int_max_str_digits)) ''x'' None
      False ''s'' = Inr \<lparr>ok = False, store = db_with 5, tries = 0\<rparr>"
    using big
    by (simp add: shopping_call_def shopping_deduct_ficore_credits_def shopping_try_def
        calm_def)
  from unformattable_amount(1) b s show ?thesis
    by simp
qed


text \<open>
  \<^bold>\<open>C9\<close> (as amended). The budget module accepts every positive amount: with a non-empty
  \<^verbatim>\<open>user_id\<close>, an existing user whose balance is at least the amount and a store that
  raises nothing, the call returns \<^verbatim>\<open>True\<close> and lowers the balance by the amount. The
  shopping module returns \<^verbatim>\<open>True\<close> only for amounts whose \<^verbatim>\<open>int()\<close> is 1 or 2.
\<close>

theorem C9_any_positive_amount_in_budget:
  "(user_id \<noteq> [] \<and> py_num amount = Some a \<and> 0 < a \<and> users d user_id = Some u \<and>
    ficore_credit_balance u = Num b \<and> a \<le> b \<and> faults e = (\<lambda>i p. None) \<and>
    concurrent e = (\<lambda>d. d) \<longrightarrow>
      (\<exists>r. budget_deduct_ficore_credits e d user_id amount action ref_id sid = Inr r \<and> ok r \<and>
         balance_of (store r) user_id = Some (b - a))) \<and>
   (shopping_deduct_ficore_credits e' d' user_id' amount' action' ref_id' mongo_session sid' =
      Inr r' \<and> ok r' \<longrightarrow>
      py_int amount' = Some 1 \<or> py_int amount' = Some 2)"
proof (intro conjI impI)
  assume "user_id \<noteq> [] \<and> py_num amount = Some a \<and> 0 < a \<and> users d user_id = Some u \<and>
    ficore_credit_balance u = Num b \<and> a \<le> b \<and> faults e = (\<lambda>i p. None) \<and>
    concurrent e = (\<lambda>d. d)"
  then have "budget_deduct_ficore_credits e d user_id amount action ref_id sid =
      Inr \<lparr>ok = True,
           store = all_three_writes d user_id (u\<lparr>ficore_credit_balance := Num (b - a)\<rparr>)
                     a action ref_id sid b,
           tries = 1\<rparr>"
    by (intro budget_success) auto
  then show "\<exists>r. budget_deduct_ficore_credits e d user_id amount action ref_id sid = Inr r \<and>
      ok r \<and> balance_of (store r) user_id = Some (b - a)"
    by (simp add: all_three_writes_def balance_of_def)
next
  assume h: "shopping_deduct_ficore_credits e' d' user_id' amount' action' ref_id'
      mongo_session sid' = Inr r' \<and> ok r'"
  obtain res d2 k where t: "shopping_try e' d' user_id' amount' action' ref_id' mongo_session
      sid' = (res, d2, k)"
    by (cases "shopping_try e' d' user_id' amount' action' ref_id' mongo_session sid'")
  with h shopping_result [OF t] have "res = Inr True" by auto
  with t shopping_try_True [of e' d' user_id' amount' action' ref_id' mongo_session sid' d2 k]
  show "py_int amount' = Some 1 \<or> py_int amount' = Some 2"
    by auto
qed

text \<open>The scenario of the specification in the budget module: 3 against balance 5 succeeds
  and leaves balance 2; and an accepted shopping call has amount 1 or 2.\<close>

theorem C9_any_positive_amount_in_budget_witness:
  "(\<exists>r. budget_deduct_ficore_credits calm (db_with 5) ''u1'' (PyInt 3) ''x'' None ''s'' = Inr r \<and>
      ok r \<and> balance_of (store r) ''u1'' = Some (5 - 3)) \<and>
   (\<exists>r. shopping_deduct_ficore_credits calm (db_with 5) ''u1'' (PyInt 2) ''x'' None False ''s'' =
      Inr r \<and> ok r) \<and>
   (py_int (PyInt 2) = Some 1 \<or> py_int (PyInt 2) = Some 2)"
proof -
  have pre: "''u1'' \<noteq> [] \<and> py_num (PyInt 3) = Some 3 \<and> (0::rat) < 3 \<and>
      users (db_with 5) ''u1'' = Some \<lparr>ficore_credit_balance = Num 5\<rparr> \<and>
      ficore_credit_balance \<lparr>ficore_credit_balance = Num 5\<rparr> = Num 5 \<and> (3::rat) \<le> 5 \<and>
      faults calm = (\<lambda>i p. None) \<and> concurrent calm = (\<lambda>d. d)"
    by (simp add: calm_def db_with_def)
  have s: "shopping_deduct_ficore_credits calm (db_with 5) ''u1'' (PyInt 2) ''x'' None False
      ''s'' =
     Inr \<lparr>ok = True,
          store = all_three_writes (db_with 5) ''u1'' \<lparr>ficore_credit_balance = Num 3\<rparr> 2 ''x''
                    None ''s'' 5,
          tries = 1\<rparr>"
    by (simp add: run_defs calm_def db_with_def all_three_writes_def)
  from C9_any_positive_amount_in_budget [where user_id = "''u1''" and amount = "PyInt 3"
      and a = 3 and d = "db_with 5" and u = "\<lparr>ficore_credit_balance = Num 5\<rparr>" and b = 5
      and e = calm and action = "''x''" and ref_id = None and sid = "''s''"
      and e' = calm and d' = "db_with 5" and user_id' = "''u1''" and amount' = "PyInt 2"
      and action' = "''x''" and ref_id' = None and mongo_session = False and sid' = "''s''"
      and r' = "\<lparr>ok = True,
          store = all_three_writes (db_with 5) ''u1'' \<lparr>ficore_credit_balance = Num 3\<rparr> 2 ''x''
                    None ''s'' 5,
          tries = 1\<rparr>"] pre s
  show ?thesis
    by simp
qed

text \<open>
  The claim as stated fails in the shopping module: 3 against balance 5 is refused.
\<close>

theorem C9_counterexample:
  "balance_of (db_with 5) ''u1'' = Some 5 \<and> py_num (PyInt 3) = Some 3 \<and> (0::rat) < 3 \<and>
   shopping_deduct_ficore_credits calm (db_with 5) ''u1'' (PyInt 3) ''x'' None False ''s'' =
     Inr \<lparr>ok = False, store = db_with 5, tries = 0\<rparr>"
  by (simp add: balance_of_def db_with_def shopping_deduct_ficore_credits_def shopping_try_def)

text \<open>
  \<^bold>\<open>C10\<close>. The shopping module sees its amount only through \<^verbatim>\<open>int(amount)\<close>: two
  amounts with the same truncation give the same result; an amount whose truncation is
  neither 1 nor 2 is refused with the store untouched; and an amount whose truncation
  \<open>n\<close> is 1 or 2 passes, and on success the deduction written to the balance, the
  ledger and the audit log is \<open>n\<close>, not the amount requested.
\<close>

theorem C10_shopping_truncates_amount:
  "(py_int amount' = py_int amount'' \<longrightarrow>
      shopping_deduct_ficore_credits e d user_id amount' action ref_id mongo_session sid =
      shopping_deduct_ficore_credits e d user_id amount'' action ref_id mongo_session sid) \<and>
   (py_int amount = Some n \<and> n \<noteq> 1 \<and> n \<noteq> 2 \<longrightarrow>
      shopping_deduct_ficore_credits e d user_id amount action ref_id mongo_session sid =
        Inr \<lparr>ok = False, store = d, tries = 0\<rparr>) \<and>
   (py_int amount = Some n \<and> (n = 1 \<or> n = 2) \<and> user_id \<noteq> [] \<and> users d user_id = Some u \<and>
    ficore_credit_balance u = Num b \<and> of_int n \<le> b \<and> faults e = (\<lambda>i p. None) \<and>
    concurrent e = (\<lambda>d. d) \<longrightarrow>
      shopping_deduct_ficore_credits e d user_id amount action ref_id mongo_session sid =
        Inr \<lparr>ok = True,
             store = all_three_writes d user_id
                       (u\<lparr>ficore_credit_balance := Num (b - of_int n)\<rparr>)
                       (of_int n) action ref_id sid b,
             tries = 1\<rparr>)"
proof (intro conjI impI)
  assume "py_int amount' = py_int amount''"
  then show "shopping_deduct_ficore_credits e d user_id amount' action ref_id mongo_session sid =
      shopping_deduct_ficore_credits e d user_id amount'' action ref_id mongo_session sid"
    by (simp add: shopping_deduct_ficore_credits_def shopping_try_def)
next
  assume "py_int amount = Some n \<and> n \<noteq> 1 \<and> n \<noteq> 2"
  then show "shopping_deduct_ficore_credits e d user_id amount action ref_id mongo_session sid =
        Inr \<lparr>ok = False, store = d, tries = 0\<rparr>"
    by (intro shopping_rejects [of amount n]) auto
next
  assume "py_int amount = Some n \<and> (n = 1 \<or> n = 2) \<and> user_id \<noteq> [] \<and>
    users d user_id = Some u \<and> ficore_credit_balance u = Num b \<and> of_int n \<le> b \<and>
    faults e = (\<lambda>i p. None) \<and> concurrent e = (\<lambda>d. d)"
  then show "shopping_deduct_ficore_credits e d user_id amount action ref_id mongo_session sid =
        Inr \<lparr>ok = True,
             store = all_three_writes d user_id
                       (u\<lparr>ficore_credit_balance := Num (b - of_int n)\<rparr>)
                       (of_int n) action ref_id sid b,
             tries = 1\<rparr>"
    by (intro shopping_success) auto
qed

text \<open>
  The amount 1.5 behaves as 1 and deducts 1 from balance 5; the amount 0.5 is refused.
\<close>

theorem C10_shopping_truncates_amount_witness:
  "py_int (PyFloat (3 / 2)) = Some 1 \<and>
   shopping_deduct_ficore_credits calm (db_with 5) ''u1'' (PyFloat (3 / 2)) ''x'' None False ''s'' =
     shopping_deduct_ficore_credits calm (db_with 5) ''u1'' (PyInt 1) ''x'' None False ''s'' \<and>
   shopping_deduct_ficore_credits calm (db_with 5) ''u1'' (PyFloat (3 / 2)) ''x'' None False ''s'' =
     Inr \<lparr>ok = True,
          store = all_three_writes (db_with 5) ''u1'' \<lparr>ficore_credit_balance = Num 4\<rparr> 1 ''x''
                    None ''s'' 5,
          tries = 1\<rparr> \<and>
   py_int (PyFloat (1 / 2)) = Some 0 \<and>
   shopping_deduct_ficore_credits calm (db_with 5) ''u1'' (PyFloat (1 / 2)) ''x'' None False ''s'' =
     Inr \<lparr>ok = False, store = db_with 5, tries = 0\<rparr>"
proof -
  have t1: "py_int (PyFloat (3 / 2)) = Some 1"
    by (simp add: floor_eq_iff)
  have t1': "py_int (PyFloat (3 / 2)) = py_int (PyInt 1)"
    by (simp add: floor_eq_iff)
  have t0: "py_int (PyFloat (1 / 2)) = Some 0"
    by (simp add: floor_eq_iff)
  have pre: "(1::int) = 1 \<or> (1::int) = 2" "''u1'' \<noteq> []"
    "users (db_with 5) ''u1'' = Some \<lparr>ficore_credit_balance = Num 5\<rparr>"
    "ficore_credit_balance \<lparr>ficore_credit_balance = Num 5\<rparr> = Num 5"
    "of_int 1 \<le> (5::rat)" "faults calm = (\<lambda>i p. None)" "concurrent calm = (\<lambda>d. d)"
    by (simp_all add: calm_def db_with_def)
  from C10_shopping_truncates_amount [where amount' = "PyFloat (3 / 2)" and amount'' = "PyInt 1"
      and amount = "PyFloat (3 / 2)" and n = 1 and e = calm and d = "db_with 5"
      and user_id = "''u1''" and action = "''x''" and ref_id = None and mongo_session = False
      and sid = "''s''" and u = "\<lparr>ficore_credit_balance = Num 5\<rparr>" and b = 5] t1 t1' pre
  have a: "shopping_deduct_ficore_credits calm (db_with 5) ''u1'' (PyFloat (3 / 2)) ''x'' None
        False ''s'' =
      shopping_deduct_ficore_credits calm (db_with 5) ''u1'' (PyInt 1) ''x'' None False ''s''"
    and c: "shopping_deduct_ficore_credits calm (db_with 5) ''u1'' (PyFloat (3 / 2)) ''x'' None
        False ''s'' =
      Inr \<lparr>ok = True,
           store = all_three_writes (db_with 5) ''u1''
                     (\<lparr>ficore_credit_balance = Num 5\<rparr>\<lparr>ficore_credit_balance := Num (5 - of_int 1)\<rparr>)
                     (of_int 1) ''x'' None ''s'' 5,
           tries = 1\<rparr>"
    by blast+
  from C10_shopping_truncates_amount [where amount = "PyFloat (1 / 2)" and n = 0 and e = calm
      and d = "db_with 5" and user_id = "''u1''" and action = "''x''" and ref_id = None
      and mongo_session = False and sid = "''s''"] t0
  have b: "shopping_deduct_ficore_credits calm (db_with 5) ''u1'' (PyFloat (1 / 2)) ''x'' None
      False ''s'' = Inr \<lparr>ok = False, store = db_with 5, tries = 0\<rparr>"
    by simp
  from t1 t0 a b c show ?thesis
    by (simp add: all_three_writes_def)
qed

end
